theory Spec2Isabelle
  imports Main
begin

section \<open>Values\<close>

text \<open>
  The field is generic in its value type. A value is modelled as a JavaScript value:
  \<open>undefined\<close>, \<open>null\<close>, a boolean, a number (an integer or \<open>NaN\<close>; the signed zero
  and the fractions are left out), a string, or a reference to an object (compared by
  identity). On these values the \<open>Object.is\<close> comparison of a signal's \<open>set\<close> is HOL
  equality.
\<close>

datatype jsval =
  JUndefined | JNull | JBool bool | JNum int | JNaN | JStr string | JRef nat

text \<open>
  The strict comparison \<open>a !== b\<close> of the source: true of two different values, and
  also of \<open>NaN\<close> and itself.
\<close>

definition strictNotEqual :: "jsval \<Rightarrow> jsval \<Rightarrow> bool" where
  "strictNotEqual a b = (a \<noteq> b \<or> a = JNaN)"

text \<open>The \<open>!!x\<close> of the source: the truthiness of a value.\<close>

fun truthy :: "jsval \<Rightarrow> bool" where
  "truthy JUndefined = False"
| "truthy JNull = False"
| "truthy (JBool b) = b"
| "truthy (JNum n) = (n \<noteq> 0)"
| "truthy JNaN = False"
| "truthy (JStr s) = (s \<noteq> [])"
| "truthy (JRef r) = True"

section \<open>Data model of \<open>form-field.ts\<close>\<close>

datatype DirtyState = PRISTINE | DIRTY

datatype TouchedState = TOUCHED | UNTOUCHED

text \<open>
  The types \<open>ValidationState\<close>, \<open>ValidationErrors\<close>, \<open>InvalidDetails\<close> and \<open>Validator\<close>
  are imported from \<open>./validation\<close>. A validation state is the tag \<open>'VALID'\<close> or another
  tag; the errors are an object used as a mapping from error keys to payloads; an
  entry of the errors array has at least a \<open>key\<close> and a \<open>message\<close>,
  the message possibly \<open>undefined\<close> (\<open>errorMessage\<close> returns \<open>string | undefined\<close>); a
  validator is a function object, known by its identity.
\<close>

datatype ValidationState = VALID | OtherTag string

text \<open>
  The errors object: its own properties are the entries of the mapping, from error
  keys to payloads; the members of its prototype chain are what a property read finds
  under a name that is not the key of an entry.
\<close>

record ValidationErrors =
  entries :: "string \<rightharpoonup> jsval"
  prototype :: "string \<rightharpoonup> jsval"

text \<open>
  What an object written as a literal inherits from \<open>Object.prototype\<close>: eleven
  functions and the accessor \<open>__proto__\<close>, which reads \<open>Object.prototype\<close> itself;
  each of them is an object.
\<close>

definition objectPrototype :: "string \<rightharpoonup> jsval" where
  "objectPrototype =
     map_of
       [(''constructor'', JRef 100),
        (''hasOwnProperty'', JRef 101),
        (''isPrototypeOf'', JRef 102),
        (''propertyIsEnumerable'', JRef 103),
        (''toLocaleString'', JRef 104),
        (''toString'', JRef 105),
        (''valueOf'', JRef 106),
        (''__defineGetter__'', JRef 107),
        (''__defineSetter__'', JRef 108),
        (''__lookupGetter__'', JRef 109),
        (''__lookupSetter__'', JRef 110),
        (''__proto__'', JRef 111)]"

record InvalidDetails =
  key :: string
  message :: "string option"

type_synonym Validator = nat

text \<open>
  The signals derived by the validation collaborator (\<open>computeErrors\<close>,
  \<open>computeErrorsArray\<close>, \<open>computeState\<close> over \<open>computeValidateState\<close> and
  \<open>computeValidators\<close>) are parameters of the model: what each of them yields for the
  current content of the value signal.
\<close>

record validation =
  computeErrors :: "jsval \<Rightarrow> ValidationErrors"
  computeErrorsArray :: "jsval \<Rightarrow> InvalidDetails list"
  computeState :: "jsval \<Rightarrow> ValidationState"

text \<open>
  \<open>FormFieldOptions\<close>: the optional list of validators. The predicates \<open>hidden\<close>,
  \<open>disabled\<close> and \<open>readOnly\<close> feed cells of their own that no operation below reads
  or writes; they are not part of the model.
\<close>

record FormFieldOptions =
  validators :: "Validator list option"

text \<open>
  The arguments of \<open>createFormField\<close>: \<open>value\<close> is a literal or a writable signal (given
  by its content at construction), \<open>options\<close> is absent, an options object, or a
  function from the value signal to an options object (given as a function of the
  signal's content).
\<close>

datatype value_arg = Literal jsval | WritableSignal jsval

datatype options_arg =
  NoOptions
| StaticOptions FormFieldOptions
| OptionsCreator "jsval \<Rightarrow> FormFieldOptions"

text \<open>
  A reset callback is a function object; \<open>NoOp\<close> is the initial \<open>(_value) => {}\<close>. A
  callback is modelled as an observer: each invocation is logged with the callee, the
  argument it receives and what it reads from the field's signals at that moment. The
  call is the last statement of \<open>reset\<close>, so whatever a callback does to the field is a
  sequence of operations following the \<open>reset\<close>.
\<close>

datatype callback = NoOp | Fn nat

record reset_call =
  callee :: callback
  argument :: jsval
  seenValue :: jsval
  seenTouchedState :: TouchedState
  seenDirtyState :: DirtyState

text \<open>
  The state the closure of \<open>createFormField\<close> holds: the writable signals, the local
  \<open>previousValue\<close> of the dirty-tracking effect, whether that effect is scheduled to run
  (an effect runs once after its creation and again after a signal it has read has
  changed, never inside the call that writes the signal), the resolved options, the
  default value, the callback slot, and the log of callback invocations.
\<close>

record FormField =
  valueSignal :: jsval
  touchedStateSignal :: TouchedState
  dirtyStateSignal :: DirtyState
  previousValue :: jsval
  effectScheduled :: bool
  finalOptions :: "FormFieldOptions option"
  defaultValue :: jsval
  onReset :: callback
  calls :: "reset_call list"

section \<open>Construction\<close>

fun initialValue :: "value_arg \<Rightarrow> jsval" where
  "initialValue (Literal v) = v"
| "initialValue (WritableSignal v) = v"

fun resolveOptions :: "options_arg \<Rightarrow> jsval \<Rightarrow> FormFieldOptions option" where
  "resolveOptions NoOptions v = None"
| "resolveOptions (StaticOptions opts) v = Some opts"
| "resolveOptions (OptionsCreator f) v = Some (f v)"

definition createFormField :: "value_arg \<Rightarrow> options_arg \<Rightarrow> FormField" where
  "createFormField val options =
     \<lparr> valueSignal = initialValue val,
       touchedStateSignal = UNTOUCHED,
       dirtyStateSignal = PRISTINE,
       previousValue = JUndefined,
       effectScheduled = True,
       finalOptions = resolveOptions options (initialValue val),
       defaultValue = initialValue val,
       onReset = NoOp,
       calls = [] \<rparr>"

section \<open>The value signal and the dirty-tracking effect\<close>

text \<open>
  \<open>valueSignal.set(v)\<close>: a write of the value the signal already holds changes nothing
  and notifies nobody; any other write stores the value and schedules the effect.
\<close>

definition setValue :: "jsval \<Rightarrow> FormField \<Rightarrow> FormField" where
  "setValue v f =
     (if v = valueSignal f then f
      else f\<lparr>valueSignal := v, effectScheduled := True\<rparr>)"

text \<open>The body of the effect (lines 135 to 141).\<close>

definition dirtyEffect :: "FormField \<Rightarrow> FormField" where
  "dirtyEffect f =
     (let newValue = valueSignal f;
          f1 = (if strictNotEqual (previousValue f) JUndefined \<and>
                   strictNotEqual newValue (previousValue f)
                then f\<lparr>dirtyStateSignal := DIRTY\<rparr> else f)
      in f1\<lparr>previousValue := newValue\<rparr>)"

text \<open>The reactive propagation: the runtime runs the effect if it is scheduled.\<close>

definition flushEffects :: "FormField \<Rightarrow> FormField" where
  "flushEffects f =
     (if effectScheduled f then (dirtyEffect f)\<lparr>effectScheduled := False\<rparr> else f)"

section \<open>The operations of the returned object\<close>

definition markAsTouched :: "FormField \<Rightarrow> FormField" where
  "markAsTouched f = f\<lparr>touchedStateSignal := TOUCHED\<rparr>"

definition markAsDirty :: "FormField \<Rightarrow> FormField" where
  "markAsDirty f = f\<lparr>dirtyStateSignal := DIRTY\<rparr>"

definition registerOnReset :: "callback \<Rightarrow> FormField \<Rightarrow> FormField" where
  "registerOnReset fn f = f\<lparr>onReset := fn\<rparr>"

definition invokeOnReset :: "jsval \<Rightarrow> FormField \<Rightarrow> FormField" where
  "invokeOnReset v f =
     f\<lparr>calls := calls f @
          [\<lparr> callee = onReset f, argument = v, seenValue = valueSignal f,
             seenTouchedState = touchedStateSignal f,
             seenDirtyState = dirtyStateSignal f \<rparr>]\<rparr>"

definition reset :: "FormField \<Rightarrow> FormField" where
  "reset f =
     (let f1 = setValue (defaultValue f) f;
          f2 = f1\<lparr>touchedStateSignal := UNTOUCHED\<rparr>;
          f3 = f2\<lparr>dirtyStateSignal := PRISTINE\<rparr>
      in invokeOnReset (defaultValue f) f3)"

subsection \<open>The derived signals and the queries\<close>

definition touched :: "FormField \<Rightarrow> bool" where
  "touched f = (touchedStateSignal f = TOUCHED)"

definition dirty :: "FormField \<Rightarrow> bool" where
  "dirty f = (dirtyStateSignal f = DIRTY)"

definition errors :: "validation \<Rightarrow> FormField \<Rightarrow> ValidationErrors" where
  "errors V f = computeErrors V (valueSignal f)"

definition errorsArray :: "validation \<Rightarrow> FormField \<Rightarrow> InvalidDetails list" where
  "errorsArray V f = computeErrorsArray V (valueSignal f)"

definition state :: "validation \<Rightarrow> FormField \<Rightarrow> ValidationState" where
  "state V f = computeState V (valueSignal f)"

definition valid :: "validation \<Rightarrow> FormField \<Rightarrow> bool" where
  "valid V f = (state V f = VALID)"

text \<open>
  \<open>obj[k]\<close>: the payload of the object's own entry under the key; without such an
  entry, the member of that name on the prototype chain; without either, \<open>undefined\<close>.
\<close>

definition property :: "ValidationErrors \<Rightarrow> string \<Rightarrow> jsval" where
  "property obj k =
     (case entries obj k of
        Some p \<Rightarrow> p
      | None \<Rightarrow> (case prototype obj k of Some m \<Rightarrow> m | None \<Rightarrow> JUndefined))"

definition hasError :: "validation \<Rightarrow> FormField \<Rightarrow> string \<Rightarrow> bool" where
  "hasError V f errorKey = truthy (property (errors V f) errorKey)"

text \<open>
  \<open>errorsArraySignal().find(e => e.key === errorKey)?.message\<close>: \<open>None\<close> is the
  \<open>undefined\<close> that the optional chaining yields when \<open>find\<close> finds nothing, and also
  the \<open>undefined\<close> message of an entry that has none.
\<close>

definition errorMessage :: "validation \<Rightarrow> FormField \<Rightarrow> string \<Rightarrow> string option" where
  "errorMessage V f errorKey =
     (case find (\<lambda>e. key e = errorKey) (errorsArray V f) of
        None \<Rightarrow> None
      | Some e \<Rightarrow> message e)"

text \<open>
  Modelled from the spec: the function \<open>hasValidator\<close> of \<open>./validation\<close>, which is not
  among the sources. It tells whether the validator is among the configured validators,
  and returns \<open>false\<close> if no validators were configured at all.
\<close>

definition hasValidator :: "Validator list option \<Rightarrow> Validator \<Rightarrow> bool" where
  "hasValidator vs v = (case vs of None \<Rightarrow> False | Some l \<Rightarrow> v \<in> set l)"

text \<open>The \<open>hasValidator\<close> of the field (lines 205 to 211).\<close>

definition fieldHasValidator :: "FormField \<Rightarrow> Validator \<Rightarrow> bool" where
  "fieldHasValidator f v =
     (case finalOptions f of
        Some opts \<Rightarrow> hasValidator (validators opts) v
      | None \<Rightarrow> False)"

section \<open>Histories\<close>

text \<open>
  What can happen to a field: a write of the value signal (by the owner of the field
  or of a shared signal), a call of one of the operations, or a run of the runtime's
  propagation.
\<close>

datatype operation =
  SetValue jsval
| MarkAsTouched
| MarkAsDirty
| RegisterOnReset callback
| Reset
| Flush

fun step :: "operation \<Rightarrow> FormField \<Rightarrow> FormField" where
  "step (SetValue v) f = setValue v f"
| "step MarkAsTouched f = markAsTouched f"
| "step MarkAsDirty f = markAsDirty f"
| "step (RegisterOnReset fn) f = registerOnReset fn f"
| "step Reset f = reset f"
| "step Flush f = flushEffects f"

fun run :: "operation list \<Rightarrow> FormField \<Rightarrow> FormField" where
  "run [] f = f"
| "run (x # xs) f = run xs (step x f)"

text \<open>
  A history of value writes and observations: each batch of writes is followed by one
  propagation, in which the observer sees the value the batch has left.
\<close>

definition observedBatches :: "jsval list list \<Rightarrow> operation list" where
  "observedBatches bs = concat (map (\<lambda>ws. map SetValue ws @ [Flush]) bs)"

fun isValueWrite :: "operation \<Rightarrow> bool" where
  "isValueWrite (SetValue v) = True"
| "isValueWrite Flush = True"
| "isValueWrite _ = False"

text \<open>
  Between two runs of the effect the tracker holds the value of the signal, unless a
  run is still to come.
\<close>

definition baselineOk :: "FormField \<Rightarrow> bool" where
  "baselineOk f = (effectScheduled f \<or> previousValue f = valueSignal f)"

section \<open>Basic facts\<close>

lemmas op_defs = setValue_def dirtyEffect_def flushEffects_def markAsTouched_def
  markAsDirty_def registerOnReset_def invokeOnReset_def reset_def strictNotEqual_def

lemma run_append: "run (xs @ ys) f = run ys (run xs f)"
  by (induction xs arbitrary: f) simp_all

lemma observedBatches_snoc:
  "observedBatches (bs @ [ws]) = observedBatches bs @ map SetValue ws @ [Flush]"
  by (simp add: observedBatches_def)

lemma observedBatches_Cons:
  "observedBatches (ws # bs) = map SetValue ws @ Flush # observedBatches bs"
  by (simp add: observedBatches_def)

lemma baselineOk_create: "baselineOk (createFormField val options)"
  by (simp add: baselineOk_def createFormField_def)

lemma baselineOk_step: "baselineOk f \<Longrightarrow> baselineOk (step x f)"
  by (cases x) (auto simp: baselineOk_def op_defs Let_def)

lemma baselineOk_run: "baselineOk f \<Longrightarrow> baselineOk (run xs f)"
  by (induction xs arbitrary: f) (simp_all add: baselineOk_step)

lemma finalOptions_step: "finalOptions (step x f) = finalOptions f"
  by (cases x) (auto simp: op_defs Let_def)

lemma finalOptions_run: "finalOptions (run xs f) = finalOptions f"
  by (induction xs arbitrary: f) (simp_all add: finalOptions_step)

lemma defaultValue_step: "defaultValue (step x f) = defaultValue f"
  by (cases x) (auto simp: op_defs Let_def)

lemma defaultValue_run: "defaultValue (run xs f) = defaultValue f"
  by (induction xs arbitrary: f) (simp_all add: defaultValue_step)

lemma touched_step_write:
  "isValueWrite x \<Longrightarrow> touchedStateSignal (step x f) = touchedStateSignal f"
  by (cases x) (auto simp: op_defs Let_def)

lemma touched_run_writes:
  "list_all isValueWrite xs \<Longrightarrow> touchedStateSignal (run xs f) = touchedStateSignal f"
  by (induction xs arbitrary: f) (simp_all add: touched_step_write)

lemma dirty_step_stays:
  "x \<noteq> Reset \<Longrightarrow> dirtyStateSignal f = DIRTY \<Longrightarrow> dirtyStateSignal (step x f) = DIRTY"
  by (cases x) (auto simp: op_defs Let_def)

lemma unobserved_writes:
  "previousValue (run (map SetValue ws) f) = previousValue f \<and>
   dirtyStateSignal (run (map SetValue ws) f) = dirtyStateSignal f"
  by (induction ws arbitrary: f) (simp_all add: setValue_def)

lemma value_after_writes:
  "valueSignal (run (map SetValue ws) f) = last (valueSignal f # ws)"
  by (induction ws arbitrary: f) (simp_all add: setValue_def)

lemma scheduled_after_writes:
  "effectScheduled f \<or> last (valueSignal f # ws) \<noteq> valueSignal f
     \<Longrightarrow> effectScheduled (run (map SetValue ws) f)"
proof (induction ws arbitrary: f)
  case Nil
  then show ?case by simp
next
  case (Cons w ws)
  have v: "valueSignal (setValue w f) = w"
    by (simp add: setValue_def)
  have "effectScheduled (setValue w f) \<or> last (w # ws) \<noteq> w"
    using Cons.prems by (cases "w = valueSignal f") (auto simp: setValue_def)
  then have "effectScheduled (run (map SetValue ws) (setValue w f))"
    using Cons.IH [of "setValue w f"] v by simp
  then show ?case by simp
qed

lemma first_observation:
  "previousValue f = JUndefined \<Longrightarrow> dirtyStateSignal (flushEffects f) = dirtyStateSignal f"
  by (simp add: flushEffects_def dirtyEffect_def strictNotEqual_def)

section \<open>Touched\<close>

text \<open>
  C4. \<open>markAsTouched\<close> sets \<open>touchedState\<close> to \<open>TOUCHED\<close> whatever the field holds. An
  operation that takes \<open>touchedState\<close> from \<open>UNTOUCHED\<close> to \<open>TOUCHED\<close> is
  \<open>markAsTouched\<close>, so no write of the value and no run of the effect touches the
  field; an operation that takes it from \<open>TOUCHED\<close> to \<open>UNTOUCHED\<close> is \<open>reset\<close>, which
  always leaves it \<open>UNTOUCHED\<close>. After \<open>markAsTouched\<close>, any number of value writes and
  propagations leaves \<open>touched\<close> true.
\<close>

theorem touched_only_by_marking:
  "touchedStateSignal (markAsTouched f) = TOUCHED \<and>
   (touchedStateSignal f = UNTOUCHED \<and> touchedStateSignal (step x f) = TOUCHED
      \<longrightarrow> x = MarkAsTouched) \<and>
   (touchedStateSignal f = TOUCHED \<and> touchedStateSignal (step x f) = UNTOUCHED
      \<longrightarrow> x = Reset) \<and>
   (list_all isValueWrite xs \<longrightarrow> touched (run xs (markAsTouched f))) \<and>
   touchedStateSignal (reset f) = UNTOUCHED"
proof -
  have a: "touchedStateSignal (markAsTouched f) = TOUCHED"
    by (simp add: markAsTouched_def)
  have b: "touchedStateSignal f = UNTOUCHED \<and> touchedStateSignal (step x f) = TOUCHED
      \<longrightarrow> x = MarkAsTouched"
    by (cases x) (auto simp: op_defs Let_def split: if_splits)
  have c: "touchedStateSignal f = TOUCHED \<and> touchedStateSignal (step x f) = UNTOUCHED
      \<longrightarrow> x = Reset"
    by (cases x) (auto simp: op_defs Let_def split: if_splits)
  have d: "list_all isValueWrite xs \<longrightarrow> touched (run xs (markAsTouched f))"
    by (simp add: touched_def touched_run_writes a)
  have e: "touchedStateSignal (reset f) = UNTOUCHED"
    by (simp add: op_defs Let_def)
  from a b c d e show ?thesis by blast
qed

theorem touched_only_by_marking_witness:
  "touchedStateSignal (createFormField (Literal (JNum 0)) NoOptions) = UNTOUCHED \<and>
   touchedStateSignal (step MarkAsTouched (createFormField (Literal (JNum 0)) NoOptions))
     = TOUCHED \<and>
   touchedStateSignal (step Reset (markAsTouched (createFormField (Literal (JNum 0)) NoOptions)))
     = UNTOUCHED \<and>
   list_all isValueWrite [SetValue (JNum 1), Flush, SetValue (JNum 2), Flush] \<and>
   touched (run [SetValue (JNum 1), Flush, SetValue (JNum 2), Flush]
     (markAsTouched (createFormField (Literal (JNum 0)) NoOptions)))"
  using touched_only_by_marking [of "createFormField (Literal (JNum 0)) NoOptions"
      MarkAsTouched "[SetValue (JNum 1), Flush, SetValue (JNum 2), Flush]"]
    touched_only_by_marking [of "markAsTouched (createFormField (Literal (JNum 0)) NoOptions)"
      Reset "[]"]
  by (simp add: createFormField_def op_defs Let_def)

section \<open>The reset callback\<close>

text \<open>
  C8. The field has one callback slot, the no-op at construction. \<open>registerOnReset\<close>
  replaces its content, so after two registrations the slot holds the second callback
  only. \<open>reset\<close> leaves the value signal at \<open>defaultValue\<close>, \<open>touchedState\<close> at
  \<open>UNTOUCHED\<close> and \<open>dirtyState\<close> at \<open>PRISTINE\<close>, and the slot as it was. It makes
  exactly one call, to the callback in the slot, with
  \<open>defaultValue\<close> as its argument, and the callee then reads the value signal as
  \<open>defaultValue\<close>, \<open>touchedState\<close> as \<open>UNTOUCHED\<close> and \<open>dirtyState\<close> as \<open>PRISTINE\<close>.
\<close>

theorem reset_callback_slot:
  "onReset (createFormField val options) = NoOp \<and>
   onReset (registerOnReset g (registerOnReset h f)) = g \<and>
   valueSignal (reset f) = defaultValue f \<and>
   touchedStateSignal (reset f) = UNTOUCHED \<and>
   dirtyStateSignal (reset f) = PRISTINE \<and>
   onReset (reset f) = onReset f \<and>
   calls (reset f) =
     calls f @ [\<lparr> callee = onReset f, argument = defaultValue f,
                  seenValue = defaultValue f, seenTouchedState = UNTOUCHED,
                  seenDirtyState = PRISTINE \<rparr>] \<and>
   calls (reset (registerOnReset g (registerOnReset h f))) =
     calls f @ [\<lparr> callee = g, argument = defaultValue f,
                  seenValue = defaultValue f, seenTouchedState = UNTOUCHED,
                  seenDirtyState = PRISTINE \<rparr>]"
  by (simp add: createFormField_def op_defs Let_def)

section \<open>Validity\<close>

text \<open>
  C9. In every state a field reaches from its construction, \<open>valid\<close> is the truth value
  of \<open>state === 'VALID'\<close>, the state being what the collaborator computes for the
  current value; \<open>valid\<close> has no cell of its own that an operation could write.
\<close>

theorem valid_iff_state_VALID:
  "(valid V (run xs (createFormField val options))
      \<longleftrightarrow> state V (run xs (createFormField val options)) = VALID) \<and>
   (valid V (run xs (createFormField val options))
      \<longleftrightarrow> computeState V (valueSignal (run xs (createFormField val options))) = VALID)"
  by (simp add: valid_def state_def)

section \<open>Queries on the validation results\<close>

text \<open>
  C5, as stated, fails in both directions: \<open>hasError\<close> is \<open>!!errors[key]\<close>, the
  truthiness of what the property read yields. With the errors \<open>{required: ''}\<close> the
  mapping has an entry for \<open>required\<close> and \<open>hasError('required')\<close> is false. With the
  errors \<open>{}\<close> the mapping has no entry for \<open>toString\<close> and \<open>hasError('toString')\<close> is
  true, the read finding the function the object inherits.
\<close>

theorem hasError_not_entry_cex:
  "\<not> (hasError \<lparr> computeErrors = (\<lambda>v. \<lparr> entries = [''required'' \<mapsto> JStr ''''],
                                          prototype = objectPrototype \<rparr>),
                  computeErrorsArray = (\<lambda>v. []),
                  computeState = (\<lambda>v. OtherTag ''INVALID'') \<rparr>
        (createFormField (Literal (JStr '''')) NoOptions) ''required''
      \<longleftrightarrow> ''required'' \<in> dom (entries (errors
               \<lparr> computeErrors = (\<lambda>v. \<lparr> entries = [''required'' \<mapsto> JStr ''''],
                                          prototype = objectPrototype \<rparr>),
                  computeErrorsArray = (\<lambda>v. []),
                  computeState = (\<lambda>v. OtherTag ''INVALID'') \<rparr>
        (createFormField (Literal (JStr '''')) NoOptions)))) \<and>
   \<not> (hasError \<lparr> computeErrors = (\<lambda>v. \<lparr> entries = Map.empty,
                                          prototype = objectPrototype \<rparr>),
                  computeErrorsArray = (\<lambda>v. []),
                  computeState = (\<lambda>v. VALID) \<rparr>
        (createFormField (Literal (JStr ''a'')) NoOptions) ''toString''
      \<longleftrightarrow> ''toString'' \<in> dom (entries (errors
               \<lparr> computeErrors = (\<lambda>v. \<lparr> entries = Map.empty,
                                          prototype = objectPrototype \<rparr>),
                  computeErrorsArray = (\<lambda>v. []),
                  computeState = (\<lambda>v. VALID) \<rparr>
        (createFormField (Literal (JStr ''a'')) NoOptions))))"
  by (simp add: hasError_def errors_def property_def objectPrototype_def)

text \<open>
  C5, amended. For every key and every content of the errors signal, \<open>hasError(key)\<close> is
  true if and only if the value that \<open>errors[key]\<close> reads is truthy: the payload of the
  mapping's entry for the key if there is one, otherwise the member of that name that
  the errors object inherits from its prototype chain. Hence, when every payload of the
  mapping is truthy and the key is not the name of an inherited member, \<open>hasError(key)\<close>
  is true if and only if the mapping has an entry for the key.
\<close>

theorem hasError_iff_truthy_property:
  "(hasError V f k \<longleftrightarrow>
      (\<exists>p. entries (errors V f) k = Some p \<and> truthy p) \<or>
      (entries (errors V f) k = None \<and> (\<exists>m. prototype (errors V f) k = Some m \<and> truthy m))) \<and>
   ((\<forall>p\<in>ran (entries (errors V f)). truthy p) \<and> k \<notin> dom (prototype (errors V f))
      \<longrightarrow> (hasError V f k \<longleftrightarrow> k \<in> dom (entries (errors V f))))"
proof (intro conjI impI)
  show "hasError V f k \<longleftrightarrow>
      (\<exists>p. entries (errors V f) k = Some p \<and> truthy p) \<or>
      (entries (errors V f) k = None \<and> (\<exists>m. prototype (errors V f) k = Some m \<and> truthy m))"
    by (auto simp: hasError_def property_def split: option.splits)
next
  assume h: "(\<forall>p\<in>ran (entries (errors V f)). truthy p) \<and> k \<notin> dom (prototype (errors V f))"
  show "hasError V f k \<longleftrightarrow> k \<in> dom (entries (errors V f))"
  proof (cases "entries (errors V f) k")
    case None
    with h show ?thesis
      by (auto simp: hasError_def property_def split: option.splits)
  next
    case (Some p)
    then have "p \<in> ran (entries (errors V f))"
      by (auto simp: ran_def)
    with h Some show ?thesis
      by (auto simp: hasError_def property_def)
  qed
qed

theorem hasError_iff_truthy_property_witness:
  "hasError \<lparr> computeErrors = (\<lambda>v. \<lparr> entries = [''required'' \<mapsto> JRef 1],
                                      prototype = objectPrototype \<rparr>),
               computeErrorsArray = (\<lambda>v. []),
               computeState = (\<lambda>v. OtherTag ''INVALID'') \<rparr>
     (createFormField (Literal (JStr '''')) NoOptions) ''required'' \<and>
   \<not> hasError \<lparr> computeErrors = (\<lambda>v. \<lparr> entries = [''required'' \<mapsto> JRef 1],
                                        prototype = objectPrototype \<rparr>),
                 computeErrorsArray = (\<lambda>v. []),
                 computeState = (\<lambda>v. OtherTag ''INVALID'') \<rparr>
     (createFormField (Literal (JStr '''')) NoOptions) ''min'' \<and>
   hasError \<lparr> computeErrors = (\<lambda>v. \<lparr> entries = [''required'' \<mapsto> JRef 1],
                                      prototype = objectPrototype \<rparr>),
               computeErrorsArray = (\<lambda>v. []),
               computeState = (\<lambda>v. OtherTag ''INVALID'') \<rparr>
     (createFormField (Literal (JStr '''')) NoOptions) ''valueOf''"
  using hasError_iff_truthy_property
      [of "\<lparr> computeErrors = (\<lambda>v. \<lparr> entries = [''required'' \<mapsto> JRef 1],
                                      prototype = objectPrototype \<rparr>),
               computeErrorsArray = (\<lambda>v. []),
               computeState = (\<lambda>v. OtherTag ''INVALID'') \<rparr>"
        "createFormField (Literal (JStr '''')) NoOptions" "''required''"]
    hasError_iff_truthy_property
      [of "\<lparr> computeErrors = (\<lambda>v. \<lparr> entries = [''required'' \<mapsto> JRef 1],
                                      prototype = objectPrototype \<rparr>),
               computeErrorsArray = (\<lambda>v. []),
               computeState = (\<lambda>v. OtherTag ''INVALID'') \<rparr>"
        "createFormField (Literal (JStr '''')) NoOptions" "''min''"]
    hasError_iff_truthy_property
      [of "\<lparr> computeErrors = (\<lambda>v. \<lparr> entries = [''required'' \<mapsto> JRef 1],
                                      prototype = objectPrototype \<rparr>),
               computeErrorsArray = (\<lambda>v. []),
               computeState = (\<lambda>v. OtherTag ''INVALID'') \<rparr>"
        "createFormField (Literal (JStr '''')) NoOptions" "''valueOf''"]
  by (simp add: errors_def objectPrototype_def)

lemma find_first_match:
  "(\<forall>x\<in>set pre. \<not> P x) \<Longrightarrow> P e \<Longrightarrow> find P (pre @ e # post) = Some e"
  by (induction pre) simp_all

lemma find_no_match: "(\<forall>x\<in>set xs. \<not> P x) \<Longrightarrow> find P xs = None"
  by (induction xs) simp_all

text \<open>
  C6. When the errors array is \<open>pre @ e # post\<close>, no entry of \<open>pre\<close> has the key and
  \<open>e\<close> has it, \<open>errorMessage(key)\<close> is the message of \<open>e\<close>: the message of the first
  entry with that key. When no entry of the array has the key, \<open>errorMessage(key)\<close>
  is the absent result \<open>undefined\<close>; the function is total, it never throws.
\<close>

theorem errorMessage_first_match:
  "(errorsArray V f = pre @ e # post \<and> (\<forall>x\<in>set pre. key x \<noteq> k) \<and> key e = k
      \<longrightarrow> errorMessage V f k = message e) \<and>
   ((\<forall>x\<in>set (errorsArray V f). key x \<noteq> k) \<longrightarrow> errorMessage V f k = None)"
proof (intro conjI impI)
  assume h: "errorsArray V f = pre @ e # post \<and> (\<forall>x\<in>set pre. key x \<noteq> k) \<and> key e = k"
  then have "find (\<lambda>x. key x = k) (pre @ e # post) = Some e"
    by (intro find_first_match) auto
  with h show "errorMessage V f k = message e"
    by (simp add: errorMessage_def)
next
  assume "\<forall>x\<in>set (errorsArray V f). key x \<noteq> k"
  then have "find (\<lambda>x. key x = k) (errorsArray V f) = None"
    by (intro find_no_match) auto
  then show "errorMessage V f k = None"
    by (simp add: errorMessage_def)
qed

theorem errorMessage_first_match_witness:
  "errorMessage \<lparr> computeErrors = (\<lambda>v. \<lparr> entries = Map.empty, prototype = objectPrototype \<rparr>),
       computeErrorsArray = (\<lambda>v. [\<lparr>key = ''min'', message = Some ''too small''\<rparr>,
                                   \<lparr>key = ''odd'', message = Some ''first''\<rparr>,
                                   \<lparr>key = ''odd'', message = Some ''second''\<rparr>]),
       computeState = (\<lambda>v. OtherTag ''INVALID'') \<rparr>
     (createFormField (Literal (JNum 0)) NoOptions) ''odd'' = Some ''first'' \<and>
   errorMessage \<lparr> computeErrors = (\<lambda>v. \<lparr> entries = Map.empty, prototype = objectPrototype \<rparr>),
       computeErrorsArray = (\<lambda>v. [\<lparr>key = ''min'', message = Some ''too small''\<rparr>,
                                   \<lparr>key = ''odd'', message = Some ''first''\<rparr>,
                                   \<lparr>key = ''odd'', message = Some ''second''\<rparr>]),
       computeState = (\<lambda>v. OtherTag ''INVALID'') \<rparr>
     (createFormField (Literal (JNum 0)) NoOptions) ''max'' = None"
  using errorMessage_first_match
      [of "\<lparr> computeErrors = (\<lambda>v. \<lparr> entries = Map.empty, prototype = objectPrototype \<rparr>),
       computeErrorsArray = (\<lambda>v. [\<lparr>key = ''min'', message = Some ''too small''\<rparr>,
                                   \<lparr>key = ''odd'', message = Some ''first''\<rparr>,
                                   \<lparr>key = ''odd'', message = Some ''second''\<rparr>]),
       computeState = (\<lambda>v. OtherTag ''INVALID'') \<rparr>"
      "createFormField (Literal (JNum 0)) NoOptions"
      "[\<lparr>key = ''min'', message = Some ''too small''\<rparr>]"
      "\<lparr>key = ''odd'', message = Some ''first''\<rparr>"
      "[\<lparr>key = ''odd'', message = Some ''second''\<rparr>]" "''odd''"]
    errorMessage_first_match
      [of "\<lparr> computeErrors = (\<lambda>v. \<lparr> entries = Map.empty, prototype = objectPrototype \<rparr>),
       computeErrorsArray = (\<lambda>v. [\<lparr>key = ''min'', message = Some ''too small''\<rparr>,
                                   \<lparr>key = ''odd'', message = Some ''first''\<rparr>,
                                   \<lparr>key = ''odd'', message = Some ''second''\<rparr>]),
       computeState = (\<lambda>v. OtherTag ''INVALID'') \<rparr>"
      "createFormField (Literal (JNum 0)) NoOptions" "[]"
      "\<lparr>key = ''x'', message = None\<rparr>" "[]" "''max''"]
  by (simp add: errorsArray_def)

text \<open>
  C7. A field constructed without options, or with options (given directly or by an
  options creator) that have no list of validators, answers \<open>false\<close> to
  \<open>hasValidator(ref)\<close> for every validator reference, at construction and after any
  history of operations.
\<close>

theorem hasValidator_unconfigured:
  "\<not> fieldHasValidator (run xs (createFormField val NoOptions)) v \<and>
   (validators opts = None \<longrightarrow>
      \<not> fieldHasValidator (run xs (createFormField val (StaticOptions opts))) v) \<and>
   (validators (g (initialValue val)) = None \<longrightarrow>
      \<not> fieldHasValidator (run xs (createFormField val (OptionsCreator g))) v)"
  by (simp add: fieldHasValidator_def finalOptions_run createFormField_def hasValidator_def)

theorem hasValidator_unconfigured_witness:
  "\<not> fieldHasValidator (run [SetValue (JNum 1), Flush]
        (createFormField (Literal (JNum 0)) NoOptions)) 7 \<and>
   \<not> fieldHasValidator (run [SetValue (JNum 1), Flush]
        (createFormField (Literal (JNum 0)) (StaticOptions \<lparr>validators = None\<rparr>))) 7 \<and>
   \<not> fieldHasValidator (run [SetValue (JNum 1), Flush]
        (createFormField (Literal (JNum 0)) (OptionsCreator (\<lambda>v. \<lparr>validators = None\<rparr>)))) 7"
  using hasValidator_unconfigured [of "[SetValue (JNum 1), Flush]" "Literal (JNum 0)" 7
      "\<lparr>validators = None\<rparr>" "\<lambda>v. \<lparr>validators = None\<rparr>"]
  by simp

section \<open>Dirty tracking\<close>

lemma first_batch_state:
  "valueSignal (run (observedBatches [b]) (createFormField val options))
     = last (initialValue val # b) \<and>
   previousValue (run (observedBatches [b]) (createFormField val options))
     = last (initialValue val # b) \<and>
   \<not> effectScheduled (run (observedBatches [b]) (createFormField val options)) \<and>
   dirtyStateSignal (run (observedBatches [b]) (createFormField val options)) = PRISTINE"
proof -
  let ?c = "createFormField val options"
  let ?h = "run (map SetValue b) ?c"
  have v: "valueSignal ?h = last (initialValue val # b)"
    using value_after_writes [of b ?c] by (simp add: createFormField_def)
  have p: "previousValue ?h = JUndefined" "dirtyStateSignal ?h = PRISTINE"
    using unobserved_writes [of b ?c] by (simp_all add: createFormField_def)
  have s: "effectScheduled ?h"
    by (rule scheduled_after_writes) (simp add: createFormField_def)
  have r: "run (observedBatches [b]) ?c = flushEffects ?h"
    by (simp add: observedBatches_def run_append)
  from v p s show ?thesis unfolding r
    by (simp add: flushEffects_def dirtyEffect_def strictNotEqual_def)
qed

lemma observed_state:
  assumes "last (initialValue val # b) \<noteq> JUndefined"
    and "distinct_adj (last (initialValue val # b) # map last bs)"
    and "[] \<notin> set bs"
  shows "valueSignal (run (observedBatches (b # bs)) (createFormField val options))
           = last (last (initialValue val # b) # map last bs) \<and>
         previousValue (run (observedBatches (b # bs)) (createFormField val options))
           = last (last (initialValue val # b) # map last bs) \<and>
         \<not> effectScheduled (run (observedBatches (b # bs)) (createFormField val options)) \<and>
         (dirtyStateSignal (run (observedBatches (b # bs)) (createFormField val options)) = DIRTY
            \<longleftrightarrow> bs \<noteq> [])"
  using assms(2,3)
proof (induction bs rule: rev_induct)
  case Nil
  show ?case
    using first_batch_state [of b val options] by simp
next
  case (snoc w bs)
  let ?u = "last (initialValue val # b)"
  let ?g = "run (observedBatches (b # bs)) (createFormField val options)"
  let ?h = "run (map SetValue w) ?g"
  from snoc.prems have d: "distinct_adj (?u # map last bs)"
    and n: "last (?u # map last bs) \<noteq> last w"
    and e: "[] \<notin> set bs" and w: "w \<noteq> []"
    by (auto simp: distinct_adj_append_iff distinct_adj_Cons split: if_splits list.splits)
  from snoc.IH [OF d e] have g: "valueSignal ?g = last (?u # map last bs)"
      "previousValue ?g = last (?u # map last bs)" "\<not> effectScheduled ?g"
      "dirtyStateSignal ?g = DIRTY \<longleftrightarrow> bs \<noteq> []"
    by simp_all
  have v: "valueSignal ?h = last w"
    using value_after_writes [of w ?g] w by simp
  have p: "previousValue ?h = previousValue ?g" "dirtyStateSignal ?h = dirtyStateSignal ?g"
    using unobserved_writes [of w ?g] by simp_all
  have s: "effectScheduled ?h"
    by (rule scheduled_after_writes) (use w n g in simp)
  have r: "run (observedBatches (b # bs @ [w])) (createFormField val options)
         = flushEffects ?h"
    using observedBatches_snoc [of "b # bs" w]
    by (simp add: run_append)
  show ?case
  proof (cases "bs = []")
    case True
    with g n v p s w assms(1) show ?thesis unfolding r
      by (simp add: flushEffects_def dirtyEffect_def strictNotEqual_def)
  next
    case False
    with g n v p s w show ?thesis unfolding r
      by (simp add: flushEffects_def dirtyEffect_def strictNotEqual_def)
  qed
qed

text \<open>
  C3, as stated, fails when the first value the observer sees is \<open>undefined\<close>. A
  field is constructed with \<open>undefined\<close>, the effect observes it, \<open>5\<close> is written and
  observed, and \<open>dirty\<close> is still false after this second distinct value. The same
  happens to a field constructed with \<open>0\<close> to which \<open>undefined\<close> is written before
  the first run of the effect.
\<close>

theorem undefined_first_value_cex:
  "distinct_adj [JUndefined, JNum 5] \<and>
   \<not> dirty (run [Flush, SetValue (JNum 5), Flush]
       (createFormField (Literal JUndefined) NoOptions)) \<and>
   distinct_adj [JNum 0, JUndefined, JNum 5] \<and>
   \<not> dirty (run [SetValue JUndefined, Flush, SetValue (JNum 5), Flush]
       (createFormField (Literal (JNum 0)) NoOptions))"
  by (simp add: createFormField_def op_defs Let_def dirty_def)

text \<open>
  C3, amended. Take any history of value writes and observations from the construction
  of a field: a batch of writes (possibly none) and the first run of the effect, then
  any number of non-empty batches of writes, each followed by a run of the effect. If
  the first value the observer sees is not \<open>undefined\<close> and each later observed value
  differs from the one observed before it, \<open>dirty\<close> is false after the first
  observation and true after every later one, that is from the second distinct observed
  value on. The first run of the effect never sets \<open>dirty\<close>, whatever was written
  before it. Once \<open>dirtyState\<close> is \<open>DIRTY\<close>, no operation other than \<open>reset\<close> takes it
  back to \<open>PRISTINE\<close>.
\<close>

theorem dirty_after_second_observation:
  "(last (initialValue val # b) \<noteq> JUndefined \<and>
    distinct_adj (last (initialValue val # b) # map last bs) \<and> [] \<notin> set bs \<longrightarrow>
      (dirty (run (observedBatches (b # bs)) (createFormField val options)) \<longleftrightarrow> bs \<noteq> [])) \<and>
   \<not> dirty (run (map SetValue ws @ [Flush]) (createFormField val options)) \<and>
   (x \<noteq> Reset \<and> dirtyStateSignal f = DIRTY \<longrightarrow> dirtyStateSignal (step x f) = DIRTY)"
proof (intro conjI impI)
  assume "last (initialValue val # b) \<noteq> JUndefined \<and>
    distinct_adj (last (initialValue val # b) # map last bs) \<and> [] \<notin> set bs"
  then show "dirty (run (observedBatches (b # bs)) (createFormField val options)) \<longleftrightarrow> bs \<noteq> []"
    using observed_state [of val b bs options] by (simp add: dirty_def)
next
  let ?c = "createFormField val options"
  have "previousValue (run (map SetValue ws) ?c) = JUndefined"
       "dirtyStateSignal (run (map SetValue ws) ?c) = PRISTINE"
    using unobserved_writes [of ws ?c] by (simp_all add: createFormField_def)
  then have "dirtyStateSignal (flushEffects (run (map SetValue ws) ?c)) = PRISTINE"
    by (simp add: first_observation)
  then show "\<not> dirty (run (map SetValue ws @ [Flush]) ?c)"
    by (simp add: run_append dirty_def)
next
  assume "x \<noteq> Reset \<and> dirtyStateSignal f = DIRTY"
  then show "dirtyStateSignal (step x f) = DIRTY"
    by (simp add: dirty_step_stays)
qed

theorem dirty_after_second_observation_witness:
  "\<not> dirty (run (observedBatches [[]]) (createFormField (Literal (JNum 0)) NoOptions)) \<and>
   dirty (run (observedBatches [[], [JNum 5]])
     (createFormField (Literal (JNum 0)) NoOptions)) \<and>
   dirty (run (observedBatches [[], [JNum 5], [JNum 0], [JUndefined]])
     (createFormField (Literal (JNum 0)) NoOptions)) \<and>
   \<not> dirty (run (observedBatches [[JUndefined, JNum 3]])
     (createFormField (Literal (JNum 0)) NoOptions)) \<and>
   dirty (run (observedBatches [[JUndefined, JNum 3], [JNum 7, JNum 5], [JNaN]])
     (createFormField (Literal (JNum 0)) NoOptions)) \<and>
   dirtyStateSignal (step (SetValue (JNum 0))
      (run (observedBatches [[], [JNum 5]])
        (createFormField (Literal (JNum 0)) NoOptions))) = DIRTY"
  using dirty_after_second_observation [of "Literal (JNum 0)" "[]" "[]" NoOptions "[]" Flush
      "createFormField (Literal (JNum 0)) NoOptions"]
    dirty_after_second_observation [of "Literal (JNum 0)" "[]" "[[JNum 5]]" NoOptions "[]"
      "SetValue (JNum 0)"
      "run (observedBatches [[], [JNum 5]]) (createFormField (Literal (JNum 0)) NoOptions)"]
    dirty_after_second_observation [of "Literal (JNum 0)" "[]"
      "[[JNum 5], [JNum 0], [JUndefined]]" NoOptions "[]" Flush
      "createFormField (Literal (JNum 0)) NoOptions"]
    dirty_after_second_observation [of "Literal (JNum 0)" "[JUndefined, JNum 3]" "[]"
      NoOptions "[]" Flush "createFormField (Literal (JNum 0)) NoOptions"]
    dirty_after_second_observation [of "Literal (JNum 0)" "[JUndefined, JNum 3]"
      "[[JNum 7, JNum 5], [JNaN]]" NoOptions "[]" Flush
      "createFormField (Literal (JNum 0)) NoOptions"]
  by (simp add: observedBatches_def dirty_def)

lemma undefined_observed:
  assumes "baselineOk g"
  shows "previousValue (run [SetValue JUndefined, Flush] g) = JUndefined \<and>
         dirtyStateSignal (run [SetValue JUndefined, Flush, SetValue v, Flush] g)
           = dirtyStateSignal (run [SetValue JUndefined, Flush] g)"
  using assms
  by (auto simp: baselineOk_def setValue_def flushEffects_def dirtyEffect_def
      strictNotEqual_def)

text \<open>
  C10. A field constructed with \<open>undefined\<close>, as a literal or as the content of a
  signal, is not dirty after the effect has observed \<open>undefined\<close> and then one write of
  any value. In any state a field reaches from its construction, once \<open>undefined\<close> has
  been written and observed the tracker holds \<open>undefined\<close>, the token of "no baseline",
  and the observation of the next write of any value leaves \<open>dirtyState\<close> as it was.
\<close>

theorem undefined_is_no_baseline:
  "\<not> dirty (run [Flush, SetValue v, Flush] (createFormField (Literal JUndefined) options)) \<and>
   \<not> dirty (run [Flush, SetValue v, Flush]
       (createFormField (WritableSignal JUndefined) options)) \<and>
   previousValue (run (xs @ [SetValue JUndefined, Flush]) (createFormField val options))
     = JUndefined \<and>
   dirtyStateSignal (run (xs @ [SetValue JUndefined, Flush, SetValue v, Flush])
       (createFormField val options))
     = dirtyStateSignal (run (xs @ [SetValue JUndefined, Flush]) (createFormField val options))"
proof -
  have a: "\<not> dirty (run [Flush, SetValue v, Flush]
      (createFormField (Literal JUndefined) options))"
    by (simp add: createFormField_def setValue_def flushEffects_def dirtyEffect_def
        strictNotEqual_def dirty_def)
  have b: "\<not> dirty (run [Flush, SetValue v, Flush]
      (createFormField (WritableSignal JUndefined) options))"
    by (simp add: createFormField_def setValue_def flushEffects_def dirtyEffect_def
        strictNotEqual_def dirty_def)
  have "baselineOk (run xs (createFormField val options))"
    by (simp add: baselineOk_run baselineOk_create)
  from undefined_observed [OF this, of v] have c:
    "previousValue (run (xs @ [SetValue JUndefined, Flush]) (createFormField val options))
       = JUndefined"
    "dirtyStateSignal (run (xs @ [SetValue JUndefined, Flush, SetValue v, Flush])
         (createFormField val options))
       = dirtyStateSignal (run (xs @ [SetValue JUndefined, Flush])
         (createFormField val options))"
    by (simp_all only: run_append)
  from a b c show ?thesis by blast
qed

section \<open>Reset\<close>

text \<open>
  C1. The claim is that after any mutations, \<open>reset()\<close> and the propagation it triggers,
  the value is the default value and the field is neither dirty nor touched. The source
  at the history below: a field constructed with \<open>0\<close>, observed, written to \<open>5\<close>,
  observed, reset, observed. The value is the default \<open>0\<close> again and the field is not
  touched, but it is dirty: the effect that runs after \<open>reset\<close> compares \<open>0\<close> with the
  \<open>5\<close> its tracker still holds.
\<close>

theorem reset_then_propagation_dirty:
  "valueSignal (run [Flush, SetValue (JNum 5), Flush, Reset, Flush]
       (createFormField (Literal (JNum 0)) NoOptions)) = JNum 0 \<and>
   defaultValue (run [Flush, SetValue (JNum 5), Flush, Reset, Flush]
       (createFormField (Literal (JNum 0)) NoOptions)) = JNum 0 \<and>
   \<not> touched (run [Flush, SetValue (JNum 5), Flush, Reset, Flush]
       (createFormField (Literal (JNum 0)) NoOptions)) \<and>
   dirty (run [Flush, SetValue (JNum 5), Flush, Reset, Flush]
       (createFormField (Literal (JNum 0)) NoOptions))"
  by (simp add: createFormField_def op_defs Let_def touched_def dirty_def)

section \<open>The "no baseline" token\<close>

lemma fresh_stays_pristine:
  assumes "list_all isValueWrite xs"
    and "\<forall>v. SetValue v \<in> set xs \<longrightarrow> v = d"
    and "valueSignal f = d" and "dirtyStateSignal f = PRISTINE"
    and "effectScheduled f \<longrightarrow> previousValue f = JUndefined"
  shows "dirtyStateSignal (run xs f) = PRISTINE"
  using assms
proof (induction xs arbitrary: f)
  case Nil
  then show ?case by simp
next
  case (Cons x xs)
  have "valueSignal (step x f) = d \<and> dirtyStateSignal (step x f) = PRISTINE \<and>
        (effectScheduled (step x f) \<longrightarrow> previousValue (step x f) = JUndefined)"
    using Cons.prems
    by (cases x) (auto simp: setValue_def flushEffects_def dirtyEffect_def strictNotEqual_def)
  with Cons.IH [of "step x f"] Cons.prems(1,2) show ?case
    by simp
qed

text \<open>
  C2, as stated, fails: the "no baseline" token of the observer is \<open>undefined\<close>, and
  \<open>undefined\<close> is a legal field value. The tracker of a field constructed with \<open>0\<close>
  holds the very value that the value signal of a field constructed with \<open>undefined\<close>
  holds; after \<open>undefined\<close> has been written to the first field and observed, its
  tracker is what it was at construction; and a field that shares a signal holding
  \<open>undefined\<close> stays pristine when the next write, of \<open>5\<close>, is observed.
\<close>

theorem sentinel_is_legal_value_cex:
  "\<not> (previousValue (createFormField (Literal (JNum 0)) NoOptions)
        \<noteq> valueSignal (createFormField (Literal JUndefined) NoOptions)) \<and>
   previousValue (run [Flush, SetValue JUndefined, Flush]
       (createFormField (Literal (JNum 0)) NoOptions))
     = previousValue (createFormField (Literal (JNum 0)) NoOptions) \<and>
   dirtyStateSignal (run [Flush, SetValue (JNum 5), Flush]
       (createFormField (WritableSignal JUndefined) NoOptions)) = PRISTINE"
  by (simp add: createFormField_def op_defs Let_def)

text \<open>
  C2, amended. The "no baseline" token of the dirty-tracking observer is \<open>undefined\<close>:
  the tracker holds it from construction, and holds it again after observing the legal
  field value \<open>undefined\<close>. While the tracker holds it, a value observation leaves
  \<open>dirtyState\<close> as it is and only records the observed value. An observation takes
  \<open>dirtyState\<close> from \<open>PRISTINE\<close> to \<open>DIRTY\<close> only when the tracker holds another value
  than the token and the observed value differs from it. So the first observation of a
  freshly constructed field leaves it pristine with the initial value as baseline, and
  a freshly constructed field becomes dirty, under value writes and observations, only
  after a write of a value other than its initial one. What \<open>reset()\<close> does to the
  tracker is not part of this statement.
\<close>

theorem sentinel_baseline:
  "previousValue (createFormField val options) = JUndefined \<and>
   (previousValue f = JUndefined \<longrightarrow>
      dirtyStateSignal (dirtyEffect f) = dirtyStateSignal f \<and>
      previousValue (dirtyEffect f) = valueSignal f) \<and>
   (valueSignal f = JUndefined \<longrightarrow> previousValue (dirtyEffect f) = JUndefined) \<and>
   (dirtyStateSignal f = PRISTINE \<and> dirtyStateSignal (dirtyEffect f) = DIRTY \<longrightarrow>
      previousValue f \<noteq> JUndefined \<and> strictNotEqual (valueSignal f) (previousValue f)) \<and>
   dirtyStateSignal (run [Flush] (createFormField val options)) = PRISTINE \<and>
   previousValue (run [Flush] (createFormField val options)) = initialValue val \<and>
   (list_all isValueWrite xs \<and> dirty (run xs (createFormField val options)) \<longrightarrow>
      (\<exists>v. SetValue v \<in> set xs \<and> v \<noteq> initialValue val))"
proof -
  have a: "previousValue (createFormField val options) = JUndefined"
    by (simp add: createFormField_def)
  have b: "previousValue f = JUndefined \<longrightarrow>
      dirtyStateSignal (dirtyEffect f) = dirtyStateSignal f \<and>
      previousValue (dirtyEffect f) = valueSignal f"
    by (simp add: dirtyEffect_def strictNotEqual_def)
  have c: "valueSignal f = JUndefined \<longrightarrow> previousValue (dirtyEffect f) = JUndefined"
    by (simp add: dirtyEffect_def Let_def)
  have d: "dirtyStateSignal f = PRISTINE \<and> dirtyStateSignal (dirtyEffect f) = DIRTY \<longrightarrow>
      previousValue f \<noteq> JUndefined \<and> strictNotEqual (valueSignal f) (previousValue f)"
    by (auto simp: dirtyEffect_def Let_def strictNotEqual_def split: if_splits)
  have e: "dirtyStateSignal (run [Flush] (createFormField val options)) = PRISTINE"
      "previousValue (run [Flush] (createFormField val options)) = initialValue val"
    by (simp_all add: createFormField_def flushEffects_def dirtyEffect_def strictNotEqual_def)
  have g: "list_all isValueWrite xs \<and> dirty (run xs (createFormField val options)) \<longrightarrow>
      (\<exists>v. SetValue v \<in> set xs \<and> v \<noteq> initialValue val)"
  proof (intro impI, rule ccontr)
    assume h: "list_all isValueWrite xs \<and> dirty (run xs (createFormField val options))"
      and n: "\<not> (\<exists>v. SetValue v \<in> set xs \<and> v \<noteq> initialValue val)"
    from n have "\<forall>v. SetValue v \<in> set xs \<longrightarrow> v = initialValue val"
      by blast
    with h have "dirtyStateSignal (run xs (createFormField val options)) = PRISTINE"
      by (intro fresh_stays_pristine [where d = "initialValue val"])
        (simp_all add: createFormField_def)
    with h show False
      by (simp add: dirty_def)
  qed
  from a b c d e g show ?thesis by blast
qed

theorem sentinel_baseline_witness:
  "dirtyStateSignal (dirtyEffect (createFormField (Literal JUndefined) NoOptions)) = PRISTINE \<and>
   previousValue (dirtyEffect (createFormField (Literal JUndefined) NoOptions)) = JUndefined \<and>
   dirtyStateSignal (run [Flush, SetValue (JNum 5)]
       (createFormField (Literal (JNum 0)) NoOptions)) = PRISTINE \<and>
   dirtyStateSignal (dirtyEffect (run [Flush, SetValue (JNum 5)]
       (createFormField (Literal (JNum 0)) NoOptions))) = DIRTY \<and>
   previousValue (run [Flush, SetValue (JNum 5)]
       (createFormField (Literal (JNum 0)) NoOptions)) = JNum 0 \<and>
   strictNotEqual (JNum 5) (JNum 0) \<and>
   list_all isValueWrite [Flush, SetValue (JNum 5), Flush] \<and>
   dirty (run [Flush, SetValue (JNum 5), Flush]
       (createFormField (Literal (JNum 0)) NoOptions)) \<and>
   SetValue (JNum 5) \<in> set [Flush, SetValue (JNum 5), Flush]"
  using sentinel_baseline [of "Literal JUndefined" NoOptions
      "createFormField (Literal JUndefined) NoOptions" "[]"]
    sentinel_baseline [of "Literal (JNum 0)" NoOptions
      "run [Flush, SetValue (JNum 5)] (createFormField (Literal (JNum 0)) NoOptions)"
      "[Flush, SetValue (JNum 5), Flush]"]
  by (simp add: createFormField_def op_defs Let_def dirty_def)

end
